theory Spec2Isabelle
  imports Complex_Main
begin

section \<open>Numbers, errors and built-ins\<close>

text \<open>
  The program is \<^verbatim>\<open>src/comparison.py\<close>. Its amounts, weeks and scores are Python
  floats; they are modelled as exact reals, so \<open>+\<close>, \<open>*\<close> and \<open>/\<close> carry no rounding
  error. Every division of the source is guarded (by \<^verbatim>\<open>max == min\<close>, by a non-empty
  map) or has a literal non-zero divisor, so no \<^verbatim>\<open>ZeroDivisionError\<close> branch exists.
  The exceptions the modelled functions can raise are values of \<open>py_error\<close>:
  \<^verbatim>\<open>ValueError\<close> from \<^verbatim>\<open>min\<close>, \<^verbatim>\<open>max\<close> and \<^verbatim>\<open>float\<close>, and whatever the external
  recommendation service raises.
\<close>

datatype py_error = ValueError | ExternalFailure

text \<open>
  \<^verbatim>\<open>round(x, n)\<close>: the nearest multiple of \<open>10^-n\<close>, a tie going to the even
  neighbour.
\<close>

definition round_half_even :: "real \<Rightarrow> int" where
  "round_half_even y =
     (let f = floor y; d = y - of_int f
      in if d < 1 / 2 then f
         else if 1 / 2 < d then f + 1
         else if even f then f else f + 1)"

definition py_round :: "real \<Rightarrow> nat \<Rightarrow> real" where
  "py_round x n = of_int (round_half_even (x * 10 ^ n)) / 10 ^ n"

text \<open>\<^verbatim>\<open>min(xs)\<close> and \<^verbatim>\<open>max(xs)\<close> raise \<^verbatim>\<open>ValueError\<close> on an empty list.\<close>

fun py_min :: "real list \<Rightarrow> py_error + real" where
  "py_min [] = Inl ValueError"
| "py_min (x # xs) = Inr (fold min xs x)"

fun py_max :: "real list \<Rightarrow> py_error + real" where
  "py_max [] = Inl ValueError"
| "py_max (x # xs) = Inr (fold max xs x)"

text \<open>\<^verbatim>\<open>d.get(k, default)\<close> on a dict kept as an association list.\<close>

definition dict_get :: "('k \<times> 'v) list \<Rightarrow> 'k \<Rightarrow> 'v \<Rightarrow> 'v" where
  "dict_get d k dflt = (case map_of d k of Some v \<Rightarrow> v | None \<Rightarrow> dflt)"

section \<open>Currency conversion\<close>

text \<open>
  \<^verbatim>\<open>
  EXCHANGE_RATES = {"USD": 0.92, "EUR": 1.0, "GBP": 1.17, "JPY": 0.0062}

  def convert_to_eur(amount, from_currency):
      if from_currency == "EUR":
          return amount
      return amount * EXCHANGE_RATES.get(from_currency, 1.0)
  \<close>
  \<open>convert_with\<close> is the body with the table as an argument; \<open>convert_to_eur\<close> is the
  function of the source, on the module's table.
\<close>

definition EXCHANGE_RATES :: "(string \<times> real) list" where
  "EXCHANGE_RATES =
     [(''USD'', 92 / 100), (''EUR'', 1), (''GBP'', 117 / 100), (''JPY'', 62 / 10000)]"

definition convert_with :: "(string \<times> real) list \<Rightarrow> real \<Rightarrow> string \<Rightarrow> real" where
  "convert_with rates amount from_currency =
     (if from_currency = ''EUR'' then amount
      else amount * dict_get rates from_currency 1)"

definition convert_to_eur :: "real \<Rightarrow> string \<Rightarrow> real" where
  "convert_to_eur amount from_currency = convert_with EXCHANGE_RATES amount from_currency"

section \<open>Comparison items and the scorer\<close>

text \<open>
  A comparison item is a Python dict. The keys the scorer reads by subscript
  (\<^verbatim>\<open>d["total_cost_eur"]\<close>, \<^verbatim>\<open>d["tooling_cost_eur"]\<close>) are plain fields: a dict
  without them is outside this type. The keys it reads with \<^verbatim>\<open>.get\<close> are options,
  \<open>None\<close> standing for an absent key or the value \<^verbatim>\<open>None\<close>. The value under
  \<^verbatim>\<open>"moq"\<close> is a number or a string (\<^verbatim>\<open>quote.moq or "N/A"\<close>). Any other key of the
  dict lives in the record's extension, which the scorer carries along unread.
\<close>

datatype moq_value = MoqNum real | MoqStr string

record item =
  supplier :: string
  total_cost_eur :: real
  tooling_cost_eur :: real
  tooling_cost_original :: "real option"
  delivery_terms :: "string option"
  lead_time :: "string option"
  lead_time_weeks :: "real option"
  payment_terms :: "string option"
  payment_days :: "int option"
  moq :: "moq_value option"
  quotation_date :: "string option"

record scores =
  tco_score :: real
  delivery_score :: real
  payment_score :: real
  tooling_score :: real
  moq_score :: real
  missing_data_penalty :: int

text \<open>The class constant \<^verbatim>\<open>WEIGHTS\<close>, one definition per key.\<close>

definition WEIGHTS_tco :: real where "WEIGHTS_tco = 35 / 100"
definition WEIGHTS_delivery :: real where "WEIGHTS_delivery = 25 / 100"
definition WEIGHTS_payment :: real where "WEIGHTS_payment = 20 / 100"
definition WEIGHTS_tooling :: real where "WEIGHTS_tooling = 10 / 100"
definition WEIGHTS_moq :: real where "WEIGHTS_moq = 10 / 100"

text \<open>
  The shared tail of the five score functions, once the cohort's minimum and maximum are
  known:
  \<^verbatim>\<open>
  if max == min: return 100.0
  score = 100 * (1 - (value - min) / (max - min))
  return round(max(0, score), 2)
  \<close>
\<close>

definition min_max_score :: "real \<Rightarrow> real \<Rightarrow> real \<Rightarrow> real" where
  "min_max_score v lo hi =
     (if hi = lo then 100
      else py_round (max 0 (100 * (1 - (v - lo) / (hi - lo)))) 2)"

definition score_over :: "real \<Rightarrow> real list \<Rightarrow> py_error + real" where
  "score_over v vs =
     (case py_min vs of
        Inl e \<Rightarrow> Inl e
      | Inr lo \<Rightarrow> (case py_max vs of
                    Inl e \<Rightarrow> Inl e
                  | Inr hi \<Rightarrow> Inr (min_max_score v lo hi)))"

definition score_tco :: "'a item_scheme \<Rightarrow> 'a item_scheme list \<Rightarrow> py_error + real" where
  "score_tco it all_items = score_over (total_cost_eur it) (map total_cost_eur all_items)"

text \<open>\<^verbatim>\<open>[d.get(k) for d in all_items if d.get(k) is not None]\<close>\<close>

definition present :: "('a \<Rightarrow> 'b option) \<Rightarrow> 'a list \<Rightarrow> 'b list" where
  "present f xs = List.map_filter f xs"

definition score_delivery :: "'a item_scheme \<Rightarrow> 'a item_scheme list \<Rightarrow> py_error + real" where
  "score_delivery it all_items =
     (let lead_times = present lead_time_weeks all_items
      in case lead_time_weeks it of
           None \<Rightarrow> Inr 20
         | Some w \<Rightarrow> if lead_times = [] then Inr 20 else score_over w lead_times)"

definition score_payment :: "'a item_scheme \<Rightarrow> 'a item_scheme list \<Rightarrow> py_error + real" where
  "score_payment it all_items =
     (let payment_days_list = present payment_days all_items
      in case payment_days it of
           None \<Rightarrow> Inr 20
         | Some d \<Rightarrow> if payment_days_list = [] then Inr 20
                     else score_over (of_int d) (map of_int payment_days_list))"

definition score_tooling :: "'a item_scheme \<Rightarrow> 'a item_scheme list \<Rightarrow> py_error + real" where
  "score_tooling it all_items =
     score_over (tooling_cost_eur it) (map tooling_cost_eur all_items)"

text \<open>\<^verbatim>\<open>isinstance(d.get("moq"), (int, float)) and d.get("moq") > 0\<close>\<close>

definition valid_moq :: "'a item_scheme \<Rightarrow> real option" where
  "valid_moq d =
     (case moq d of
        Some (MoqNum m) \<Rightarrow> if 0 < m then Some m else None
      | _ \<Rightarrow> None)"

definition score_moq :: "'a item_scheme \<Rightarrow> 'a item_scheme list \<Rightarrow> py_error + real" where
  "score_moq it all_items =
     (let moqs = present valid_moq all_items
      in case valid_moq it of
           None \<Rightarrow> Inr 20
         | Some m \<Rightarrow> if moqs = [] then Inr 20 else score_over m moqs)"

text \<open>
  \<^verbatim>\<open>
  missing_fields = [
      item.get("lead_time") in [None, "N/A", ""],
      item.get("payment_terms") in [None, "N/A", ""],
      item.get("delivery_terms") in [None, "N/A", ""],
      item.get("quotation_date") in [None, "N/A", ""],
      item.get("moq") in [None, "N/A", 0],
      item.get("tooling_cost_eur", 0) == 0 and item.get("tooling_cost_original", 0) == 0
  ]
  return min(100, sum(missing_fields) * 10)
  \<close>
\<close>

definition text_missing :: "string option \<Rightarrow> bool" where
  "text_missing t = (t = None \<or> t = Some ''N/A'' \<or> t = Some '''')"

definition moq_missing :: "moq_value option \<Rightarrow> bool" where
  "moq_missing m = (m = None \<or> m = Some (MoqStr ''N/A'') \<or> m = Some (MoqNum 0))"

definition tooling_missing :: "'a item_scheme \<Rightarrow> bool" where
  "tooling_missing it =
     (tooling_cost_eur it = 0 \<and>
      (case tooling_cost_original it of None \<Rightarrow> 0 | Some c \<Rightarrow> c) = 0)"

definition missing_fields :: "'a item_scheme \<Rightarrow> bool list" where
  "missing_fields it =
     [text_missing (lead_time it),
      text_missing (payment_terms it),
      text_missing (delivery_terms it),
      text_missing (quotation_date it),
      moq_missing (moq it),
      tooling_missing it]"

definition calculate_missing_data_penalty :: "'a item_scheme \<Rightarrow> int" where
  "calculate_missing_data_penalty it =
     min 100 (int (length (filter id (missing_fields it))) * 10)"

definition base_total :: "scores \<Rightarrow> real" where
  "base_total s =
     tco_score s * WEIGHTS_tco +
     delivery_score s * WEIGHTS_delivery +
     payment_score s * WEIGHTS_payment +
     tooling_score s * WEIGHTS_tooling +
     moq_score s * WEIGHTS_moq"

definition penalty_factor :: "scores \<Rightarrow> real" where
  "penalty_factor s = 1 - of_int (missing_data_penalty s) / 100"

definition calculate_weighted_total :: "scores \<Rightarrow> real" where
  "calculate_weighted_total s = py_round (max 0 (base_total s * penalty_factor s)) 2"

text \<open>
  \<^verbatim>\<open>_calculate_all_scores\<close> builds the dict in this order; the first call that raises
  ends it.
\<close>

definition calculate_all_scores :: "'a item_scheme \<Rightarrow> 'a item_scheme list \<Rightarrow> py_error + scores" where
  "calculate_all_scores it all_items =
     (case score_tco it all_items of Inl e \<Rightarrow> Inl e | Inr t \<Rightarrow>
      case score_delivery it all_items of Inl e \<Rightarrow> Inl e | Inr d \<Rightarrow>
      case score_payment it all_items of Inl e \<Rightarrow> Inl e | Inr p \<Rightarrow>
      case score_tooling it all_items of Inl e \<Rightarrow> Inl e | Inr tg \<Rightarrow>
      case score_moq it all_items of Inl e \<Rightarrow> Inl e | Inr m \<Rightarrow>
        Inr \<lparr>tco_score = t, delivery_score = d, payment_score = p, tooling_score = tg,
             moq_score = m, missing_data_penalty = calculate_missing_data_penalty it\<rparr>)"

text \<open>
  \<^verbatim>\<open>score_all\<close> writes \<^verbatim>\<open>"scores"\<close> and \<^verbatim>\<open>"total_score"\<close> into every dict, then
  \<^verbatim>\<open>"final_ranking"\<close> into the dicts of the sorted list. A scored item is the item with
  these keys (\<open>with_scores\<close> adds them and keeps every other key); the ranking keys
  are \<open>None\<close> until they are written.
\<close>

record scored_item = item +
  scores :: scores
  total_score :: real
  final_ranking :: "nat option"
  cost_ranking :: "nat option"
  ranking :: "nat option"

definition with_scores :: "'a item_scheme \<Rightarrow> scores \<Rightarrow> real \<Rightarrow> 'a scored_item_scheme" where
  "with_scores it s t =
     \<lparr>supplier = supplier it,
      total_cost_eur = total_cost_eur it,
      tooling_cost_eur = tooling_cost_eur it,
      tooling_cost_original = tooling_cost_original it,
      delivery_terms = delivery_terms it,
      lead_time = lead_time it,
      lead_time_weeks = lead_time_weeks it,
      payment_terms = payment_terms it,
      payment_days = payment_days it,
      moq = moq it,
      quotation_date = quotation_date it,
      scores = s,
      total_score = t,
      final_ranking = None,
      cost_ranking = None,
      ranking = None,
      \<dots> = item.more it\<rparr>"

definition attach_scores ::
  "'a item_scheme list \<Rightarrow> 'a item_scheme \<Rightarrow> py_error + 'a scored_item_scheme" where
  "attach_scores comparison_data it =
     (case calculate_all_scores it comparison_data of
        Inl e \<Rightarrow> Inl e
      | Inr s \<Rightarrow> Inr (with_scores it s (calculate_weighted_total s)))"

text \<open>A \<^verbatim>\<open>for\<close> loop over a list whose body may raise: the first error ends it.\<close>

fun for_each :: "('a \<Rightarrow> py_error + 'b) \<Rightarrow> 'a list \<Rightarrow> py_error + 'b list" where
  "for_each f [] = Inr []"
| "for_each f (x # xs) =
     (case f x of
        Inl e \<Rightarrow> Inl e
      | Inr y \<Rightarrow> (case for_each f xs of Inl e \<Rightarrow> Inl e | Inr ys \<Rightarrow> Inr (y # ys)))"

text \<open>
  \<^verbatim>\<open>sorted(xs, key=k, reverse=True)\<close>: Python's sort is stable and \<^verbatim>\<open>reverse=True\<close>
  keeps the order of elements with equal keys; it is the stable insertion sort on the
  negated key. \<^verbatim>\<open>xs.sort(key=k)\<close> is \<open>sort_key k xs\<close>.
\<close>

definition sorted_reverse :: "('a \<Rightarrow> real) \<Rightarrow> 'a list \<Rightarrow> 'a list" where
  "sorted_reverse k xs = sort_key (\<lambda>x. - k x) xs"

text \<open>\<^verbatim>\<open>for idx, item in enumerate(scored_data, 1): item["final_ranking"] = idx\<close>\<close>

fun stamp_final_ranking ::
  "nat \<Rightarrow> 'a scored_item_scheme list \<Rightarrow> 'a scored_item_scheme list" where
  "stamp_final_ranking idx [] = []"
| "stamp_final_ranking idx (x # xs) =
     x\<lparr>final_ranking := Some idx\<rparr> # stamp_final_ranking (Suc idx) xs"

definition score_all :: "'a item_scheme list \<Rightarrow> py_error + 'a scored_item_scheme list" where
  "score_all comparison_data =
     (if comparison_data = [] then Inr []
      else case for_each (attach_scores comparison_data) comparison_data of
             Inl e \<Rightarrow> Inl e
           | Inr scored \<Rightarrow> Inr (stamp_final_ranking 1 (sorted_reverse total_score scored)))"

section \<open>Strings and the field parsers\<close>

text \<open>
  Strings are lists of bytes; \<^verbatim>\<open>lower\<close>, \<^verbatim>\<open>upper\<close>, \<^verbatim>\<open>\d\<close> and \<^verbatim>\<open>\s\<close> are their
  ASCII versions.
\<close>

definition is_digit :: "char \<Rightarrow> bool" where
  "is_digit c = (c \<in> set ''0123456789'')"

definition is_space :: "char \<Rightarrow> bool" where
  "is_space c = (c \<in> set [CHR '' '', CHR 0x09, CHR 0x0A, CHR 0x0B, CHR 0x0C, CHR 0x0D])"

definition digit_value :: "char \<Rightarrow> nat" where
  "digit_value c = dict_get (zip ''0123456789'' [0, 1, 2, 3, 4, 5, 6, 7, 8, 9]) c 0"

definition digits_value :: "string \<Rightarrow> nat" where
  "digits_value ds = foldl (\<lambda>acc c. 10 * acc + digit_value c) 0 ds"

definition lower_char :: "char \<Rightarrow> char" where
  "lower_char c =
     dict_get (zip ''ABCDEFGHIJKLMNOPQRSTUVWXYZ'' ''abcdefghijklmnopqrstuvwxyz'') c c"

definition upper_char :: "char \<Rightarrow> char" where
  "upper_char c =
     dict_get (zip ''abcdefghijklmnopqrstuvwxyz'' ''ABCDEFGHIJKLMNOPQRSTUVWXYZ'') c c"

definition lower :: "string \<Rightarrow> string" where
  "lower s = map lower_char s"

definition upper :: "string \<Rightarrow> string" where
  "upper s = map upper_char s"

definition starts_with :: "string \<Rightarrow> string \<Rightarrow> bool" where
  "starts_with sub s = (take (length sub) s = sub)"

text \<open>\<^verbatim>\<open>sub in s\<close>\<close>

fun contains :: "string \<Rightarrow> string \<Rightarrow> bool" where
  "contains sub [] = (sub = [])"
| "contains sub (c # cs) = (starts_with sub (c # cs) \<or> contains sub cs)"

text \<open>
  \<^verbatim>\<open>re.findall(r'\d+\.?\d*', s)[0]\<close>: the leftmost match starts at the first digit, takes
  the whole run of digits, a dot if one follows, and the digits after it. \<open>None\<close> is the
  empty result list.
\<close>

definition first_number :: "string \<Rightarrow> string option" where
  "first_number s =
     (let r = dropWhile (\<lambda>c. \<not> is_digit c) s
      in if r = [] then None
         else let whole = takeWhile is_digit r; rest = dropWhile is_digit r
              in case rest of
                   [] \<Rightarrow> Some whole
                 | c # cs \<Rightarrow> if c = CHR ''.'' then Some (whole @ [c] @ takeWhile is_digit cs)
                             else Some whole)"

text \<open>
  \<^verbatim>\<open>float(tok)\<close> on the strings the pattern above can produce, digits with an optional
  dot and more digits; on any other string it is \<^verbatim>\<open>ValueError\<close> here.
\<close>

definition py_float :: "string \<Rightarrow> py_error + real" where
  "py_float tok =
     (let whole = takeWhile is_digit tok; rest = dropWhile is_digit tok
      in if whole = [] then Inl ValueError
         else case rest of
                [] \<Rightarrow> Inr (real (digits_value whole))
              | c # fs \<Rightarrow>
                  if c = CHR ''.'' \<and> list_all is_digit fs
                  then Inr (real (digits_value whole) +
                            real (digits_value fs) / 10 ^ length fs)
                  else Inl ValueError)"

text \<open>
  \<^verbatim>\<open>
  def _parse_lead_time(self, lead_time):
      if not lead_time or lead_time == "N/A":
          return None
      try:
          numbers = re.findall(r'\d+\.?\d*', lead_time.lower())
          if not numbers:
              return None
          weeks = float(numbers[0])
          lead_time_lower = lead_time.lower()
          if 'day' in lead_time_lower or 'tag' in lead_time_lower:
              weeks /= 7
          elif 'month' in lead_time_lower or 'monat' in lead_time_lower:
              weeks *= 4.33
          elif 'year' in lead_time_lower or 'jahr' in lead_time_lower:
              weeks *= 52
          return round(weeks, 1)
      except (ValueError, TypeError):
          return None
  \<close>
\<close>

definition to_weeks :: "string \<Rightarrow> real \<Rightarrow> real" where
  "to_weeks lead_time_lower weeks =
     (if contains ''day'' lead_time_lower \<or> contains ''tag'' lead_time_lower
        then weeks / 7
      else if contains ''month'' lead_time_lower \<or> contains ''monat'' lead_time_lower
        then weeks * (433 / 100)
      else if contains ''year'' lead_time_lower \<or> contains ''jahr'' lead_time_lower
        then weeks * 52
      else weeks)"

definition parse_lead_time :: "string option \<Rightarrow> real option" where
  "parse_lead_time txt =
     (case txt of
        None \<Rightarrow> None
      | Some s \<Rightarrow>
          if s = [] \<or> s = ''N/A'' then None
          else case first_number (lower s) of
                 None \<Rightarrow> None
               | Some tok \<Rightarrow>
                   (case py_float tok of
                      Inl e \<Rightarrow> None
                    | Inr weeks \<Rightarrow> Some (py_round (to_weeks (lower s) weeks) 1)))"

text \<open>
  \<^verbatim>\<open>
  match = re.search(r'(\d+)\s*(?:days?|tag)', s.lower()) or re.search(r'net\s*(\d+)', s.lower())
  return int(match.group(1)) if match else None
  \<close>
  A match of the first pattern at a position is a whole run of digits there, then
  white space, then \<^verbatim>\<open>day\<close> or \<^verbatim>\<open>tag\<close>: a shorter run is followed by a digit, where
  neither white space nor a unit matches. \<^verbatim>\<open>re.search\<close> takes the leftmost position.
\<close>

definition match_days_at :: "string \<Rightarrow> string option" where
  "match_days_at s =
     (let ds = takeWhile is_digit s; rest = dropWhile is_space (dropWhile is_digit s)
      in if ds \<noteq> [] \<and> (starts_with ''day'' rest \<or> starts_with ''tag'' rest)
         then Some ds else None)"

definition match_net_at :: "string \<Rightarrow> string option" where
  "match_net_at s =
     (if starts_with ''net'' s
      then let ds = takeWhile is_digit (dropWhile is_space (drop 3 s))
           in if ds \<noteq> [] then Some ds else None
      else None)"

fun re_search :: "(string \<Rightarrow> string option) \<Rightarrow> string \<Rightarrow> string option" where
  "re_search match_at [] = None"
| "re_search match_at (c # cs) =
     (case match_at (c # cs) of
        Some g \<Rightarrow> Some g
      | None \<Rightarrow> re_search match_at cs)"

definition parse_payment_terms :: "string option \<Rightarrow> int option" where
  "parse_payment_terms txt =
     (case txt of
        None \<Rightarrow> None
      | Some s \<Rightarrow>
          if s = [] \<or> s = ''N/A'' then None
          else case re_search match_days_at (lower s) of
                 Some g \<Rightarrow> Some (int (digits_value g))
               | None \<Rightarrow> (case re_search match_net_at (lower s) of
                            Some g \<Rightarrow> Some (int (digits_value g))
                          | None \<Rightarrow> None))"

definition incoterms_list :: "string list" where
  "incoterms_list =
     [''EXW'', ''FCA'', ''FAS'', ''FOB'', ''CFR'', ''CIF'', ''CPT'', ''CIP'', ''DAP'', ''DPU'',
      ''DDP'']"

definition extract_incoterms :: "string option \<Rightarrow> string" where
  "extract_incoterms txt =
     (case txt of
        None \<Rightarrow> ''N/A''
      | Some s \<Rightarrow>
          if s = [] \<or> s = ''N/A'' then ''N/A''
          else case find (\<lambda>code. contains code (upper s)) incoterms_list of
                 Some code \<Rightarrow> code
               | None \<Rightarrow> ''N/A'')"

section \<open>Quotations and the cost aggregator\<close>

text \<open>
  \<^verbatim>\<open>ExtractedQuotation\<close> of \<^verbatim>\<open>src/models.py\<close>; its attributes carry the prefix \<open>q_\<close>.
  The two dicts are association lists in insertion order (a dict has each key once). The
  quotation date is kept as the text \<^verbatim>\<open>strftime("%Y-%m-%d")\<close> gives for it.
\<close>

datatype currency = USD | EUR | GBP | JPY

fun currency_value :: "currency \<Rightarrow> string" where
  "currency_value USD = ''USD''"
| "currency_value EUR = ''EUR''"
| "currency_value GBP = ''GBP''"
| "currency_value JPY = ''JPY''"

record quotation =
  q_supplier_name :: string
  q_annual_prices :: "(int \<times> real) list"
  q_annual_quantities :: "(int \<times> int) list"
  q_tooling_cost :: "real option"
  q_tooling_cost_type :: "string option"
  q_delivery_terms :: "string option"
  q_payment_terms :: "string option"
  q_lead_time :: "string option"
  q_currency :: currency
  q_quotation_date :: "string option"
  q_moq :: "int option"

text \<open>\<^verbatim>\<open>tooling_cost_type and tooling_cost_type.lower() in ['renewal', 'recurring']\<close>\<close>

definition is_recurring :: "string option \<Rightarrow> bool" where
  "is_recurring tooling_type =
     (case tooling_type of
        None \<Rightarrow> False
      | Some t \<Rightarrow> t \<noteq> [] \<and> (lower t = ''renewal'' \<or> lower t = ''recurring''))"

text \<open>\<^verbatim>\<open>len(quote.annual_prices) if quote.annual_prices else 1\<close>\<close>

definition years_multiplier :: "quotation \<Rightarrow> nat" where
  "years_multiplier q = (if q_annual_prices q = [] then 1 else length (q_annual_prices q))"

text \<open>
  \<^verbatim>\<open>
  def _calculate_tooling_cost(self, quote):
      tooling_base = quote.tooling_cost or 0
      tooling_cost_type = getattr(quote, 'tooling_cost_type', None)
      if tooling_cost_type and tooling_cost_type.lower() in ['renewal', 'recurring']:
          tooling_base *= len(quote.annual_prices) if quote.annual_prices else 1
      return tooling_base
  \<close>
\<close>

definition calculate_tooling_cost :: "quotation \<Rightarrow> real" where
  "calculate_tooling_cost q =
     (let tooling_base = (case q_tooling_cost q of None \<Rightarrow> 0 | Some c \<Rightarrow> c)
      in if is_recurring (q_tooling_cost_type q)
         then tooling_base * real (years_multiplier q)
         else tooling_base)"

text \<open>
  \<^verbatim>\<open>sum(quote.annual_prices[y] * quote.annual_quantities.get(y, 0)
        for y in quote.annual_prices.keys())\<close>
\<close>

definition yearly_total :: "quotation \<Rightarrow> real" where
  "yearly_total q =
     sum_list (map (\<lambda>(y, p). p * real_of_int (dict_get (q_annual_quantities q) y 0))
                   (q_annual_prices q))"

text \<open>
  \<^verbatim>\<open>
  def _calculate_tco(self, quote):
      total = sum(...)
      if quote.tooling_cost:
          tooling_cost_type = getattr(quote, 'tooling_cost_type', None)
          if tooling_cost_type and tooling_cost_type.lower() in ['renewal', 'recurring']:
              total += quote.tooling_cost * (len(quote.annual_prices) if quote.annual_prices else 1)
          else:
              total += quote.tooling_cost
      return total
  \<close>
\<close>

definition calculate_tco :: "quotation \<Rightarrow> real" where
  "calculate_tco q =
     (let total = yearly_total q
      in case q_tooling_cost q of
           None \<Rightarrow> total
         | Some c \<Rightarrow>
             if c = 0 then total
             else if is_recurring (q_tooling_cost_type q)
               then total + c * real (years_multiplier q)
             else total + c)"

definition calculate_avg_unit_cost :: "quotation \<Rightarrow> real" where
  "calculate_avg_unit_cost q =
     (if q_annual_prices q = [] then 0
      else sum_list (map snd (q_annual_prices q)) / real (length (q_annual_prices q)))"

definition calculate_avg_unit_cost_eur :: "quotation \<Rightarrow> real" where
  "calculate_avg_unit_cost_eur q =
     (if q_annual_prices q = [] then 0
      else sum_list (map (\<lambda>(y, p). convert_to_eur p (currency_value (q_currency q)))
                         (q_annual_prices q))
           / real (length (q_annual_prices q)))"

record price_line =
  unit_price :: real
  quantity :: int
  total :: real

definition get_price_breakdown_original :: "quotation \<Rightarrow> (int \<times> price_line) list" where
  "get_price_breakdown_original q =
     map (\<lambda>(y, p).
            let n = dict_get (q_annual_quantities q) y 0
            in (y, \<lparr>unit_price = p, quantity = n, total = p * real_of_int n\<rparr>))
         (sort_key fst (q_annual_prices q))"

definition get_price_breakdown_eur :: "quotation \<Rightarrow> (int \<times> price_line) list" where
  "get_price_breakdown_eur q =
     map (\<lambda>(y, p).
            let unit_price_eur = convert_to_eur p (currency_value (q_currency q));
                n = dict_get (q_annual_quantities q) y 0
            in (y, \<lparr>unit_price = unit_price_eur, quantity = n,
                    total = unit_price_eur * real_of_int n\<rparr>))
         (sort_key fst (q_annual_prices q))"

text \<open>The keys of a comparison item that the scorer does not read.\<close>

record extras =
  original_currency :: string
  total_cost_original :: real
  tooling_cost_type :: "string option"
  unit_cost_avg_eur :: real
  unit_cost_avg_original :: real
  incoterms :: string
  price_breakdown_eur :: "(int \<times> price_line) list"
  price_breakdown_original :: "(int \<times> price_line) list"
  years_covered :: "int list"

text \<open>\<^verbatim>\<open>text or "N/A"\<close>\<close>

definition or_na :: "string option \<Rightarrow> string" where
  "or_na t = (case t of None \<Rightarrow> ''N/A'' | Some s \<Rightarrow> if s = [] then ''N/A'' else s)"

definition build_comparison_item :: "quotation \<Rightarrow> extras item_scheme" where
  "build_comparison_item q =
     (let tco_original = calculate_tco q;
          tooling_base = calculate_tooling_cost q;
          cur = currency_value (q_currency q)
      in \<lparr>supplier = q_supplier_name q,
          total_cost_eur = convert_to_eur tco_original cur,
          tooling_cost_eur = convert_to_eur tooling_base cur,
          tooling_cost_original = Some tooling_base,
          delivery_terms = Some (or_na (q_delivery_terms q)),
          lead_time = Some (or_na (q_lead_time q)),
          lead_time_weeks = parse_lead_time (q_lead_time q),
          payment_terms = Some (or_na (q_payment_terms q)),
          payment_days = parse_payment_terms (q_payment_terms q),
          moq = Some (case q_moq q of
                        None \<Rightarrow> MoqStr ''N/A''
                      | Some m \<Rightarrow> if m = 0 then MoqStr ''N/A'' else MoqNum (real_of_int m)),
          quotation_date = Some (case q_quotation_date q of
                                   None \<Rightarrow> ''N/A''
                                 | Some d \<Rightarrow> d),
          \<dots> = \<lparr>original_currency = cur,
                 total_cost_original = tco_original,
                 tooling_cost_type = q_tooling_cost_type q,
                 unit_cost_avg_eur = calculate_avg_unit_cost_eur q,
                 unit_cost_avg_original = calculate_avg_unit_cost q,
                 incoterms = extract_incoterms (q_delivery_terms q),
                 price_breakdown_eur = get_price_breakdown_eur q,
                 price_breakdown_original = get_price_breakdown_original q,
                 years_covered = map fst (q_annual_prices q)\<rparr>\<rparr>)"

section \<open>The comparison pipeline\<close>

record summary =
  total_suppliers :: nat
  lowest_cost :: real
  highest_cost :: real
  cost_range :: real
  best_supplier :: string
  best_score :: real

text \<open>\<^verbatim>\<open>_generate_summary\<close>; \<open>None\<close> is the empty dict it returns for no items.\<close>

definition generate_summary :: "'a scored_item_scheme list \<Rightarrow> py_error + summary option" where
  "generate_summary comparison_data =
     (case comparison_data of
        [] \<Rightarrow> Inr None
      | best # _ \<Rightarrow>
          let costs = map total_cost_eur comparison_data
          in case py_min costs of Inl e \<Rightarrow> Inl e | Inr lo \<Rightarrow>
             case py_max costs of Inl e \<Rightarrow> Inl e | Inr hi \<Rightarrow>
               Inr (Some \<lparr>total_suppliers = length comparison_data,
                          lowest_cost = lo,
                          highest_cost = hi,
                          cost_range = hi - lo,
                          best_supplier = supplier best,
                          best_score = total_score best\<rparr>))"

text \<open>
  The recommendation is written by a language model, outside the program: the call is an
  argument \<open>llm\<close> of the model, which answers with a \<^verbatim>\<open>Recommendation\<close> or fails.
  \<^verbatim>\<open>generate_recommendation\<close> answers by itself when there are no suppliers, and fills
  an empty supplier name or a zero score of the answer from the first item.
\<close>

record recommendation =
  recommended_supplier :: "string option"
  recommended_total_score :: real
  reasoning :: string
  key_advantages :: "string list"
  considerations :: "string list"
  missing_data_impact :: "string option"

definition generate_recommendation ::
  "('a scored_item_scheme list \<Rightarrow> py_error + recommendation) \<Rightarrow>
   'a scored_item_scheme list \<Rightarrow> py_error + recommendation" where
  "generate_recommendation llm comparison_data =
     (case comparison_data of
        [] \<Rightarrow> Inr \<lparr>recommended_supplier = None,
                   recommended_total_score = 0,
                   reasoning = ''No suppliers available.'',
                   key_advantages = [],
                   considerations = [],
                   missing_data_impact = None\<rparr>
      | best # _ \<Rightarrow>
          (case llm comparison_data of
             Inl e \<Rightarrow> Inl e
           | Inr r \<Rightarrow>
               Inr (r\<lparr>recommended_supplier :=
                         (case recommended_supplier r of
                            None \<Rightarrow> Some (supplier best)
                          | Some n \<Rightarrow> if n = [] then Some (supplier best) else Some n),
                       recommended_total_score :=
                         (if recommended_total_score r = 0 then total_score best
                          else recommended_total_score r)\<rparr>)))"

text \<open>
  The result of \<^verbatim>\<open>compare\<close> is a dict with four keys, or the empty dict: every key is an
  option, and \<open>empty_result\<close> has none of them.
\<close>

record 'a comparison =
  comparison_table :: "'a scored_item_scheme list option"
  summary :: "summary option"
  recommendation :: "recommendation option"
  generated_at :: "string option"

definition empty_result :: "'a comparison" where
  "empty_result =
     \<lparr>comparison_table = None, summary = None, recommendation = None,
      generated_at = None\<rparr>"

text \<open>
  \<^verbatim>\<open>score_all\<close> returns a new list of the same dict objects, and \<^verbatim>\<open>compare\<close> then
  sorts the first list by cost and numbers its dicts: the numbers show in the scored list
  because the objects are shared. The model gives every item its position in the input
  as its identity (\<open>tag_items\<close>), sorts the tagged input by cost, and writes into each
  scored item the rank its identity has there.
\<close>

fun tag_items :: "nat \<Rightarrow> 'a item_scheme list \<Rightarrow> (nat \<times> 'a) item_scheme list" where
  "tag_items i [] = []"
| "tag_items i (x # xs) =
     item.extend (item.truncate x) (i, item.more x) # tag_items (Suc i) xs"

definition identity :: "(nat \<times> 'a) scored_item_scheme \<Rightarrow> nat" where
  "identity x = fst (scored_item.more x)"

text \<open>
  \<^verbatim>\<open>
  comparison_data.sort(key=lambda x: x["total_cost_eur"])
  for idx, item in enumerate(comparison_data, 1):
      item["cost_ranking"] = idx
  \<close>
\<close>

definition cost_ranks :: "(nat \<times> 'a) item_scheme list \<Rightarrow> (nat \<times> nat) list" where
  "cost_ranks comparison_data =
     (let by_cost = sort_key total_cost_eur comparison_data
      in zip (map (\<lambda>x. fst (item.more x)) by_cost) [1 ..< Suc (length by_cost)])"

text \<open>
  \<^verbatim>\<open>item["ranking"] = item.get("final_ranking", item.get("cost_ranking", 999))\<close>
\<close>

definition set_ranking :: "'a scored_item_scheme \<Rightarrow> 'a scored_item_scheme" where
  "set_ranking x =
     x\<lparr>ranking :=
         (case final_ranking x of
            Some r \<Rightarrow> Some r
          | None \<Rightarrow> (case cost_ranking x of Some c \<Rightarrow> Some c | None \<Rightarrow> Some 999))\<rparr>"

text \<open>
  \<^verbatim>\<open>
  def compare(self, quotations):
      if not quotations:
          return {}
      comparison_data = [self._build_comparison_item(q) for q in quotations]
      scored_data = ProcurementScorer().score_all(comparison_data)
      comparison_data.sort(key=lambda x: x["total_cost_eur"])
      for idx, item in enumerate(comparison_data, 1):
          item["cost_ranking"] = idx
      for item in scored_data:
          item["ranking"] = item.get("final_ranking", item.get("cost_ranking", 999))
      recommendation = LLMRecommendationEngine().generate_recommendation(scored_data) if scored_data else None
      return {
          "comparison_table": scored_data,
          "summary": self._generate_summary(scored_data),
          "recommendation": recommendation,
          "generated_at": datetime.now().isoformat()
      }
  \<close>
  \<open>now\<close> is the text of the clock at the call.
\<close>

definition compare ::
  "((nat \<times> extras) scored_item_scheme list \<Rightarrow> py_error + recommendation) \<Rightarrow> string \<Rightarrow>
   quotation list \<Rightarrow> py_error + (nat \<times> extras) comparison" where
  "compare llm now quotations =
     (if quotations = [] then Inr empty_result
      else
        let comparison_data = tag_items 0 (map build_comparison_item quotations)
        in case score_all comparison_data of
             Inl e \<Rightarrow> Inl e
           | Inr scored \<Rightarrow>
               let ranks = cost_ranks comparison_data;
                   scored_data =
                     map (\<lambda>x. set_ranking (x\<lparr>cost_ranking := map_of ranks (identity x)\<rparr>))
                         scored
               in case (if scored_data = [] then Inr None
                        else case generate_recommendation llm scored_data of
                               Inl e \<Rightarrow> Inl e
                             | Inr r \<Rightarrow> Inr (Some r)) of
                    Inl e \<Rightarrow> Inl e
                  | Inr rec \<Rightarrow>
                      (case generate_summary scored_data of
                         Inl e \<Rightarrow> Inl e
                       | Inr sm \<Rightarrow>
                           Inr \<lparr>comparison_table = Some scored_data,
                                summary = sm,
                                recommendation = rec,
                                generated_at = Some now\<rparr>))"

section \<open>Sample data\<close>

definition sample_item :: item where
  "sample_item =
     \<lparr>supplier = ''Alpha'',
      total_cost_eur = 1000,
      tooling_cost_eur = 200,
      tooling_cost_original = Some 200,
      delivery_terms = Some ''FOB Shanghai'',
      lead_time = Some ''8 weeks'',
      lead_time_weeks = Some 8,
      payment_terms = Some ''Net 30'',
      payment_days = Some 30,
      moq = Some (MoqNum 500),
      quotation_date = Some ''2024-03-01''\<rparr>"


definition sample_sparse :: item where
  "sample_sparse =
     sample_item\<lparr>supplier := ''Beta'',
                 total_cost_eur := 1500,
                 lead_time := Some ''N/A'',
                 lead_time_weeks := None,
                 payment_terms := None,
                 payment_days := None,
                 moq := Some (MoqStr ''N/A'')\<rparr>"

definition sample_cohort :: "item list" where
  "sample_cohort =
     [sample_item,
      sample_sparse,
      sample_item\<lparr>supplier := ''Gamma'', total_cost_eur := 1250, tooling_cost_eur := 0,
                  tooling_cost_original := Some 0, lead_time_weeks := Some 10,
                  payment_days := Some 60, moq := Some (MoqNum 1000)\<rparr>]"

definition sample_tie :: "item list" where
  "sample_tie = [sample_item, sample_item\<lparr>supplier := ''Delta''\<rparr>]"

section \<open>Rounding, minimum and maximum\<close>

lemma rhe_lower: 
  assumes "of_int a \<le> y" shows "a \<le> round_half_even y"
proof -
  have "a \<le> floor y" using assms by (simp add: le_floor_iff)
  then show ?thesis by (simp add: round_half_even_def Let_def)
qed

lemma rhe_upper:
  assumes "y \<le> of_int b" shows "round_half_even y \<le> b"
proof -
  have f: "floor y \<le> b" using assms by (simp add: floor_le_iff)
  have "floor y + 1 \<le> b" if "y \<noteq> of_int (floor y)"
  proof -
    have "of_int (floor y) < y" using that of_int_floor_le [of y] by linarith
    then have "of_int (floor y) < (of_int b :: real)" using assms by linarith
    then have "floor y < b" by (simp only: of_int_less_iff)
    then show ?thesis by simp
  qed
  then show ?thesis using f 
    by (auto simp add: round_half_even_def Let_def)
qed


lemma py_round_bounds: 
  assumes "0 \<le> x" "x \<le> 100" shows "0 \<le> py_round x 2 \<and> py_round x 2 \<le> 100"
proof -
  have "of_int 0 \<le> x * 10 ^ 2" using assms by simp
  then have l: "0 \<le> round_half_even (x * 10 ^ 2)" by (rule rhe_lower)
  have "x * 10 ^ 2 \<le> of_int 10000" using assms by simp
  then have u: "round_half_even (x * 10 ^ 2) \<le> 10000" by (rule rhe_upper)
  show ?thesis using l u by (simp add: py_round_def)
qed



lemma py_min_Min: "vs \<noteq> [] \<Longrightarrow> py_min vs = Inr (Min (set vs))"
proof (cases vs)
  case (Cons a list)
  then show ?thesis using Min.set_eq_fold [of a list] by simp
qed simp

lemma py_max_Max: "vs \<noteq> [] \<Longrightarrow> py_max vs = Inr (Max (set vs))"
proof (cases vs)
  case (Cons a list)
  then show ?thesis using Max.set_eq_fold [of a list] by simp
qed simp

lemma score_over_eq:
  "vs \<noteq> [] \<Longrightarrow> score_over v vs = Inr (min_max_score v (Min (set vs)) (Max (set vs)))"
  by (simp add: score_over_def py_min_Min py_max_Max)

lemma min_max_score_bounds:
  assumes "lo \<le> v" "v \<le> hi"
  shows "0 \<le> min_max_score v lo hi \<and> min_max_score v lo hi \<le> 100"
proof (cases "hi = lo")
  case True
  then show ?thesis by (simp add: min_max_score_def)
next
  case False
  then have pos: "0 < hi - lo" using assms by simp
  define f where "f = (v - lo) / (hi - lo)"
  have f0: "0 \<le> f" using assms pos by (simp add: f_def)
  have "0 \<le> max 0 (100 * (1 - f))" by simp
  moreover have "max 0 (100 * (1 - f)) \<le> 100" using f0 by simp
  ultimately have "0 \<le> py_round (max 0 (100 * (1 - f))) 2 \<and>
      py_round (max 0 (100 * (1 - f))) 2 \<le> 100"
    by (rule py_round_bounds)
  then show ?thesis using False by (simp add: min_max_score_def f_def)
qed

lemma score_over_bounds:
  assumes "v \<in> set vs"
  shows "\<exists>s. score_over v vs = Inr s \<and> 0 \<le> s \<and> s \<le> 100"
proof -
  have ne: "vs \<noteq> []" using assms by auto
  have "Min (set vs) \<le> v" "v \<le> Max (set vs)" using assms by simp_all
  then show ?thesis using min_max_score_bounds by (simp add: score_over_eq [OF ne])
qed

lemma set_present: "set (present f xs) = {y. \<exists>x\<in>set xs. f x = Some y}"
  by (induction xs) (auto simp: present_def split: option.splits)

lemma score_tco_bounds:
  "it \<in> set all_items \<Longrightarrow> \<exists>s. score_tco it all_items = Inr s \<and> 0 \<le> s \<and> s \<le> 100"
  unfolding score_tco_def by (rule score_over_bounds) simp

lemma score_tooling_bounds:
  "it \<in> set all_items \<Longrightarrow> \<exists>s. score_tooling it all_items = Inr s \<and> 0 \<le> s \<and> s \<le> 100"
  unfolding score_tooling_def by (rule score_over_bounds) simp

lemma score_delivery_bounds:
  assumes "it \<in> set all_items"
  shows "\<exists>s. score_delivery it all_items = Inr s \<and> 0 \<le> s \<and> s \<le> 100"
proof (cases "lead_time_weeks it")
  case None
  then show ?thesis by (simp add: score_delivery_def)
next
  case (Some w)
  then have "w \<in> set (present lead_time_weeks all_items)"
    using assms by (auto simp: set_present)
  then have "\<exists>s. score_over w (present lead_time_weeks all_items) = Inr s \<and> 0 \<le> s \<and> s \<le> 100"
    by (rule score_over_bounds)
  then show ?thesis using Some by (auto simp: score_delivery_def Let_def)
qed

lemma score_payment_bounds:
  assumes "it \<in> set all_items"
  shows "\<exists>s. score_payment it all_items = Inr s \<and> 0 \<le> s \<and> s \<le> 100"
proof (cases "payment_days it")
  case None
  then show ?thesis by (simp add: score_payment_def)
next
  case (Some d)
  then have "d \<in> set (present payment_days all_items)"
    using assms by (auto simp: set_present)
  then have "real_of_int d \<in> set (map real_of_int (present payment_days all_items))" by simp
  then have "\<exists>s. score_over (real_of_int d) (map real_of_int (present payment_days all_items)) = Inr s \<and> 0 \<le> s \<and> s \<le> 100"
    by (rule score_over_bounds)
  then show ?thesis using Some by (auto simp: score_payment_def Let_def)
qed

lemma score_moq_bounds:
  assumes "it \<in> set all_items"
  shows "\<exists>s. score_moq it all_items = Inr s \<and> 0 \<le> s \<and> s \<le> 100"
proof (cases "valid_moq it")
  case None
  then show ?thesis by (simp add: score_moq_def)
next
  case (Some m)
  then have "m \<in> set (present valid_moq all_items)"
    using assms by (auto simp: set_present)
  then have "\<exists>s. score_over m (present valid_moq all_items) = Inr s \<and> 0 \<le> s \<and> s \<le> 100"
    by (rule score_over_bounds)
  then show ?thesis using Some by (auto simp: score_moq_def Let_def)
qed

section \<open>Currency conversion: the claims\<close>

text \<open>
  C8. Conversion from the reference currency \<^verbatim>\<open>EUR\<close> returns the amount unchanged
  whatever the rate table holds (also a table that gives \<^verbatim>\<open>EUR\<close> another rate), and a
  currency code that is not a key of \<^verbatim>\<open>EXCHANGE_RATES\<close> is converted at the rate 1.0:
  the result is \<open>amount * 1\<close>, the amount itself. The function has no failing branch.
\<close>

theorem convert_reference_and_unknown:
  "convert_with rates amount ''EUR'' = amount \<and>
   convert_to_eur amount ''EUR'' = amount \<and>
   (from_currency \<notin> fst ` set EXCHANGE_RATES \<longrightarrow>
      convert_to_eur amount from_currency = amount * 1 \<and>
      convert_to_eur amount from_currency = amount)"
proof -
  have "dict_get EXCHANGE_RATES from_currency 1 = 1"
    if "from_currency \<notin> fst ` set EXCHANGE_RATES"
    using that by (simp add: dict_get_def map_of_eq_None_iff [THEN iffD2])
  then show ?thesis by (simp add: convert_with_def convert_to_eur_def)
qed

theorem convert_reference_and_unknown_witness:
  "''CHF'' \<notin> fst ` set EXCHANGE_RATES \<and>
   convert_with [(''EUR'', 2)] 250 ''EUR'' = 250 \<and>
   convert_to_eur 250 ''EUR'' = 250 \<and>
   convert_to_eur 250 ''CHF'' = 250"
  using convert_reference_and_unknown [of "[(''EUR'', 2)]" 250 "''CHF''"]
  by (simp add: EXCHANGE_RATES_def)

section \<open>The scorer: the claims\<close>

text \<open>
  C10. For an item of the cohort, each of the five criterion scores is returned (no
  exception) and lies between 0 and 100. The branch for a cohort whose values all tie
  gives exactly 100, and the fallback for a missing lead time, missing payment days or
  an invalid MOQ gives exactly 20.
\<close>

theorem criterion_scores_in_range:
  assumes "it \<in> set all_items"
  shows "(\<exists>s. score_tco it all_items = Inr s \<and> 0 \<le> s \<and> s \<le> 100) \<and>
         (\<exists>s. score_delivery it all_items = Inr s \<and> 0 \<le> s \<and> s \<le> 100) \<and>
         (\<exists>s. score_payment it all_items = Inr s \<and> 0 \<le> s \<and> s \<le> 100) \<and>
         (\<exists>s. score_tooling it all_items = Inr s \<and> 0 \<le> s \<and> s \<le> 100) \<and>
         (\<exists>s. score_moq it all_items = Inr s \<and> 0 \<le> s \<and> s \<le> 100) \<and>
         min_max_score v lo lo = 100 \<and>
         (lead_time_weeks it = None \<longrightarrow> score_delivery it all_items = Inr 20) \<and>
         (payment_days it = None \<longrightarrow> score_payment it all_items = Inr 20) \<and>
         (valid_moq it = None \<longrightarrow> score_moq it all_items = Inr 20)"
proof -
  have tie: "min_max_score v lo lo = 100" by (simp add: min_max_score_def)
  have d: "lead_time_weeks it = None \<longrightarrow> score_delivery it all_items = Inr 20"
    by (simp add: score_delivery_def)
  have p: "payment_days it = None \<longrightarrow> score_payment it all_items = Inr 20"
    by (simp add: score_payment_def)
  have m: "valid_moq it = None \<longrightarrow> score_moq it all_items = Inr 20"
    by (simp add: score_moq_def)
  show ?thesis
    using score_tco_bounds [OF assms] score_delivery_bounds [OF assms]
      score_payment_bounds [OF assms] score_tooling_bounds [OF assms]
      score_moq_bounds [OF assms] tie d p m
    by (intro conjI)
qed

theorem criterion_scores_in_range_witness:
  "sample_sparse \<in> set sample_cohort \<and>
   (\<exists>s. score_tco sample_sparse sample_cohort = Inr s \<and> 0 \<le> s \<and> s \<le> 100) \<and>
   (\<exists>s. score_tooling sample_sparse sample_cohort = Inr s \<and> 0 \<le> s \<and> s \<le> 100) \<and>
   lead_time_weeks sample_sparse = None \<and>
   score_delivery sample_sparse sample_cohort = Inr 20 \<and>
   payment_days sample_sparse = None \<and>
   score_payment sample_sparse sample_cohort = Inr 20 \<and>
   valid_moq sample_sparse = None \<and>
   score_moq sample_sparse sample_cohort = Inr 20"
proof -
  have h: "sample_sparse \<in> set sample_cohort" by (simp add: sample_cohort_def)
  have n: "lead_time_weeks sample_sparse = None" "payment_days sample_sparse = None"
    "valid_moq sample_sparse = None"
    by (simp_all add: sample_sparse_def valid_moq_def)
  show ?thesis using h n criterion_scores_in_range [OF h, of 0 0] by simp
qed











lemma penalty_bounds:
  "0 \<le> calculate_missing_data_penalty it \<and> calculate_missing_data_penalty it \<le> 100"
  by (simp add: calculate_missing_data_penalty_def)

lemma weighted_total_bounds:
  assumes "0 \<le> tco_score s" "tco_score s \<le> 100"
    and "0 \<le> delivery_score s" "delivery_score s \<le> 100"
    and "0 \<le> payment_score s" "payment_score s \<le> 100"
    and "0 \<le> tooling_score s" "tooling_score s \<le> 100"
    and "0 \<le> moq_score s" "moq_score s \<le> 100"
    and "0 \<le> missing_data_penalty s" "missing_data_penalty s \<le> 100"
  shows "0 \<le> calculate_weighted_total s \<and> calculate_weighted_total s \<le> 100"
proof -
  have b0: "0 \<le> base_total s" using assms
    by (simp add: base_total_def WEIGHTS_tco_def WEIGHTS_delivery_def WEIGHTS_payment_def
        WEIGHTS_tooling_def WEIGHTS_moq_def)
  have b1: "base_total s \<le> 100" using assms
    by (simp add: base_total_def WEIGHTS_tco_def WEIGHTS_delivery_def WEIGHTS_payment_def
        WEIGHTS_tooling_def WEIGHTS_moq_def)
  have p0: "0 \<le> penalty_factor s" using assms by (simp add: penalty_factor_def)
  have p1: "penalty_factor s \<le> 1" using assms by (simp add: penalty_factor_def)
  have "base_total s * penalty_factor s \<le> 100 * 1"
    using b0 b1 p0 p1 by (intro mult_mono) simp_all
  then have u: "max 0 (base_total s * penalty_factor s) \<le> 100" by simp
  have l: "0 \<le> max 0 (base_total s * penalty_factor s)" by simp
  show ?thesis unfolding calculate_weighted_total_def using l u by (rule py_round_bounds)
qed

lemma calculate_all_scores_total:
  assumes "it \<in> set all_items"
  shows "\<exists>s. calculate_all_scores it all_items = Inr s \<and>
           missing_data_penalty s = calculate_missing_data_penalty it \<and>
           0 \<le> calculate_weighted_total s \<and> calculate_weighted_total s \<le> 100"
proof -
  obtain t where t: "score_tco it all_items = Inr t" "0 \<le> t" "t \<le> 100"
    using score_tco_bounds [OF assms] by blast
  obtain d where d: "score_delivery it all_items = Inr d" "0 \<le> d" "d \<le> 100"
    using score_delivery_bounds [OF assms] by blast
  obtain p where p: "score_payment it all_items = Inr p" "0 \<le> p" "p \<le> 100"
    using score_payment_bounds [OF assms] by blast
  obtain g where g: "score_tooling it all_items = Inr g" "0 \<le> g" "g \<le> 100"
    using score_tooling_bounds [OF assms] by blast
  obtain m where m: "score_moq it all_items = Inr m" "0 \<le> m" "m \<le> 100"
    using score_moq_bounds [OF assms] by blast
  define s where "s = \<lparr>tco_score = t, delivery_score = d, payment_score = p,
    tooling_score = g, moq_score = m,
    missing_data_penalty = calculate_missing_data_penalty it\<rparr>"
  have e: "calculate_all_scores it all_items = Inr s"
    by (simp add: calculate_all_scores_def t d p g m s_def)
  have "0 \<le> calculate_weighted_total s \<and> calculate_weighted_total s \<le> 100"
    using t d p g m penalty_bounds [of it] by (intro weighted_total_bounds) (simp_all add: s_def)
  then show ?thesis using e by (simp add: s_def)
qed

lemma for_each_total:
  assumes "\<forall>x \<in> set xs. \<exists>y. f x = Inr y \<and> P x y"
  shows "\<exists>ys. for_each f xs = Inr ys \<and> list_all2 P xs ys"
  using assms
proof (induction xs)
  case Nil
  then show ?case by simp
next
  case (Cons x xs)
  then obtain y where y: "f x = Inr y" "P x y" by auto
  from Cons obtain ys where ys: "for_each f xs = Inr ys" "list_all2 P xs ys" by auto
  show ?case using y ys by simp
qed

lemma length_stamp_final_ranking [simp]:
  "length (stamp_final_ranking idx xs) = length xs"
  by (induction xs arbitrary: idx) simp_all

lemma nth_stamp_final_ranking:
  "i < length xs \<Longrightarrow>
   stamp_final_ranking idx xs ! i = (xs ! i)\<lparr>final_ranking := Some (idx + i)\<rparr>"
proof (induction xs arbitrary: idx i)
  case Nil
  then show ?case by simp
next
  case (Cons x xs)
  then show ?case by (cases i) simp_all
qed

lemma attach_scores_total:
  assumes "it \<in> set cd"
  shows "\<exists>x. attach_scores cd it = Inr x \<and>
           (\<exists>s. x = with_scores it s (calculate_weighted_total s) \<and>
                missing_data_penalty s = calculate_missing_data_penalty it \<and>
                0 \<le> calculate_weighted_total s \<and> calculate_weighted_total s \<le> 100)"
proof -
  obtain s where s: "calculate_all_scores it cd = Inr s"
    "missing_data_penalty s = calculate_missing_data_penalty it"
    "0 \<le> calculate_weighted_total s" "calculate_weighted_total s \<le> 100"
    using calculate_all_scores_total [OF assms] by blast
  have "attach_scores cd it = Inr (with_scores it s (calculate_weighted_total s))"
    by (simp add: attach_scores_def s)
  then show ?thesis using s by blast
qed

lemma score_all_result:
  "\<exists>scored. for_each (attach_scores cd) cd = Inr scored \<and>
     score_all cd = Inr (stamp_final_ranking 1 (sorted_reverse total_score scored)) \<and>
     list_all2 (\<lambda>it x. \<exists>s. x = with_scores it s (calculate_weighted_total s) \<and>
                missing_data_penalty s = calculate_missing_data_penalty it \<and>
                0 \<le> calculate_weighted_total s \<and> calculate_weighted_total s \<le> 100)
       cd scored"
proof -
  let ?P = "\<lambda>it x. \<exists>s. x = with_scores it s (calculate_weighted_total s) \<and>
                missing_data_penalty s = calculate_missing_data_penalty it \<and>
                0 \<le> calculate_weighted_total s \<and> calculate_weighted_total s \<le> 100"
  have "\<forall>it \<in> set cd. \<exists>x. attach_scores cd it = Inr x \<and> ?P it x"
    using attach_scores_total by blast
  then obtain scored where sc: "for_each (attach_scores cd) cd = Inr scored"
    "list_all2 ?P cd scored"
    using for_each_total [of cd "attach_scores cd" ?P] by blast
  have "score_all cd = Inr (stamp_final_ranking 1 (sorted_reverse total_score scored))"
  proof (cases "cd = []")
    case True
    then show ?thesis using sc by (simp add: score_all_def sorted_reverse_def)
  next
    case False
    then show ?thesis using sc by (simp add: score_all_def)
  qed
  then show ?thesis using sc by blast
qed

lemma with_scores_fields [simp]:
  "scores (with_scores it s t) = s"
  "total_score (with_scores it s t) = t"
  "final_ranking (with_scores it s t) = None"
  "item.more (with_scores it s t) = \<lparr>scores = s, total_score = t, final_ranking = None, cost_ranking = None, ranking = None, \<dots> = item.more it\<rparr>"
  "item.truncate (with_scores it s t) = item.truncate it"
  "scored_item.more (with_scores it s t) = item.more it"
  by (simp_all add: with_scores_def item.truncate_def)

lemma sorted_reverse_set [simp]: "set (sorted_reverse k xs) = set xs"
  by (simp add: sorted_reverse_def)

lemma sorted_reverse_length [simp]: "length (sorted_reverse k xs) = length xs"
  by (simp add: sorted_reverse_def)












section \<open>The cost aggregator: the claims\<close>





section \<open>The lead-time parser: the claims\<close>












section \<open>The pipeline and the ranking: the claims\<close>

text \<open>
  C7. On an empty list of quotations the pipeline returns, without raising and without
  calling the recommendation service, the empty result: no comparison table, no summary,
  no recommendation, no time stamp.
\<close>

theorem compare_empty_cohort:
  "compare llm now [] =
     Inr \<lparr>comparison_table = None, summary = None, recommendation = None,
          generated_at = None\<rparr>"
  by (simp add: compare_def empty_result_def)

lemma length_tag_items [simp]: "length (tag_items k xs) = length xs"
  by (induction xs arbitrary: k) simp_all

lemma nth_tag_items:
  "i < length xs \<Longrightarrow>
   tag_items k xs ! i = item.extend (item.truncate (xs ! i)) (k + i, item.more (xs ! i))"
proof (induction xs arbitrary: k i)
  case Nil
  then show ?case by simp
next
  case (Cons x xs)
  then show ?case by (cases i) simp_all
qed

lemma extend_truncate_fields [simp]:
  "item.more (item.extend (item.truncate x) m) = m"
  "item.truncate (item.extend (item.truncate x) m) = item.truncate x"
  by (simp_all add: item.extend_def item.truncate_def)

lemma identity_with_scores [simp]:
  "identity (with_scores it s t) = fst (item.more it)"
  by (simp add: identity_def)

lemma stamped_fields [simp]:
  "identity (x\<lparr>final_ranking := r\<rparr>) = identity x"
  "item.truncate (x\<lparr>final_ranking := r\<rparr>) = item.truncate x"
  by (simp_all add: identity_def item.truncate_def)

lemma sorted_wrt_filter_nth:
  assumes "sorted_wrt R (filter Q xs)" "i < j" "j < length xs" "Q (xs ! i)" "Q (xs ! j)"
  shows "R (xs ! i) (xs ! j)"
  using assms
proof (induction xs arbitrary: i j)
  case Nil
  then show ?case by simp
next
  case (Cons x xs)
  obtain j' where j: "j = Suc j'" using Cons.prems(2) by (cases j) auto
  have tail: "sorted_wrt R (filter Q xs)" using Cons.prems(1) by (simp split: if_splits)
  show ?case
  proof (cases i)
    case 0
    then have qx: "Q x" using Cons.prems(4) by simp
    have "xs ! j' \<in> set (filter Q xs)" using Cons.prems(3,5) j by simp
    then show ?thesis using Cons.prems(1) qx 0 j by simp
  next
    case (Suc i')
    then show ?thesis using Cons.IH [OF tail, of i' j'] Cons.prems j by simp
  qed
qed


lemma scored_tagged:
  assumes "list_all2 (\<lambda>it x. \<exists>s. x = with_scores it s (calculate_weighted_total s) \<and>
                missing_data_penalty s = calculate_missing_data_penalty it \<and>
                0 \<le> calculate_weighted_total s \<and> calculate_weighted_total s \<le> 100)
             (tag_items 0 cd) scored"
    and "m < length cd"
  shows "identity (scored ! m) = m \<and> item.truncate (scored ! m) = item.truncate (cd ! m)"
proof -
  have len: "length scored = length cd" using assms(1) by (auto dest: list_all2_lengthD)
  obtain s where s: "scored ! m = with_scores (tag_items 0 cd ! m) s (calculate_weighted_total s)"
    using assms by (auto simp: list_all2_conv_all_nth)
  show ?thesis using assms(2) by (simp add: s nth_tag_items)
qed

lemma ranking_core:
  assumes "list_all2 (\<lambda>it x. \<exists>s. x = with_scores it s (calculate_weighted_total s) \<and>
                missing_data_penalty s = calculate_missing_data_penalty it \<and>
                0 \<le> calculate_weighted_total s \<and> calculate_weighted_total s \<le> 100)
             (tag_items 0 cd) scored"
  defines "srt \<equiv> sorted_reverse total_score scored"
  shows "length srt = length cd"
    and "i < j \<Longrightarrow> j < length srt \<Longrightarrow> total_score (srt ! j) \<le> total_score (srt ! i)"
    and "i < j \<Longrightarrow> j < length srt \<Longrightarrow> total_score (srt ! i) = total_score (srt ! j) \<Longrightarrow>
           identity (srt ! i) < identity (srt ! j)"
    and "i < length srt \<Longrightarrow> identity (srt ! i) < length cd \<and>
           item.truncate (srt ! i) = item.truncate (cd ! identity (srt ! i))"
proof -
  have len: "length scored = length cd" using assms(1) by (auto dest: list_all2_lengthD)
  show l: "length srt = length cd" by (simp add: srt_def len)
  have ids: "identity (scored ! m) = m \<and> item.truncate (scored ! m) = item.truncate (cd ! m)"
    if "m < length cd" for m
    using scored_tagged [OF assms(1) that] .
  {
    assume ij: "i < j" "j < length srt"
    have "sorted (map (\<lambda>x. - total_score x) srt)"
      by (simp add: srt_def sorted_reverse_def)
    then have "- total_score (srt ! i) \<le> - total_score (srt ! j)"
      using ij by (simp add: sorted_iff_nth_mono)
    then show "total_score (srt ! j) \<le> total_score (srt ! i)" by simp
  }
  {
    assume ij: "i < j" "j < length srt" and eq: "total_score (srt ! i) = total_score (srt ! j)"
    let ?R = "\<lambda>a b. identity a < identity b"
    let ?Q = "\<lambda>x. - total_score x = - total_score (srt ! i)"
    have "sorted_wrt ?R scored"
      using ids len by (simp add: sorted_wrt_iff_nth_less)
    then have "sorted_wrt ?R (filter ?Q scored)" by (rule sorted_wrt_filter)
    moreover have "filter ?Q srt = filter ?Q scored"
      unfolding srt_def sorted_reverse_def by (rule sort_key_stable)
    ultimately have "sorted_wrt ?R (filter ?Q srt)" by simp
    then show "identity (srt ! i) < identity (srt ! j)"
      using ij eq by (intro sorted_wrt_filter_nth [where R = ?R and Q = ?Q]) simp_all
  }
  {
    assume i: "i < length srt"
    then have "srt ! i \<in> set scored" using nth_mem [OF i] by (simp add: srt_def)
    then obtain m where m: "m < length scored" "srt ! i = scored ! m"
      by (auto simp: in_set_conv_nth)
    then show "identity (srt ! i) < length cd \<and>
           item.truncate (srt ! i) = item.truncate (cd ! identity (srt ! i))"
      using ids [of m] len by simp
  }
qed

lemma map_final_ranking_stamp:
  "map final_ranking (stamp_final_ranking k xs) = map Some [k ..< k + length xs]"
proof (induction xs arbitrary: k)
  case Nil
  then show ?case by simp
next
  case (Cons x xs)
  have "k < k + length (x # xs)" by simp
  then have "[k ..< k + length (x # xs)] = k # [Suc k ..< k + length (x # xs)]"
    by (rule upt_conv_Cons)
  moreover have "k + length (x # xs) = Suc k + length xs" by simp
  ultimately have "[k ..< k + length (x # xs)] = k # [Suc k ..< Suc k + length xs]"
    by (simp only:)
  then show ?case using Cons.IH [of "Suc k"] by (simp del: upt_Suc)
qed

text \<open>
  C6. Give every item of the cohort its input position as identity. \<^verbatim>\<open>score_all\<close> returns
  all of them, numbered 1, 2, ... in \<^verbatim>\<open>final_ranking\<close>, in descending order of composite
  score, and of two returned items with exactly equal composite scores the one that came
  first in the input comes first in the ranking. (The stability of Python's \<^verbatim>\<open>sorted\<close>,
  also under \<^verbatim>\<open>reverse=True\<close>, is what \<open>sorted_reverse\<close> takes from the language.)
\<close>

theorem final_ranking_stable:
  "\<exists>ranked. score_all (tag_items 0 cd) = Inr ranked \<and>
     length ranked = length cd \<and>
     map final_ranking ranked = map Some [1 ..< Suc (length cd)] \<and>
     (\<forall>i j. i < j \<and> j < length ranked \<longrightarrow>
        total_score (ranked ! j) \<le> total_score (ranked ! i)) \<and>
     (\<forall>i j. i < j \<and> j < length ranked \<and> total_score (ranked ! i) = total_score (ranked ! j) \<longrightarrow>
        identity (ranked ! i) < identity (ranked ! j)) \<and>
     (\<forall>i. i < length ranked \<longrightarrow>
        identity (ranked ! i) < length cd \<and>
        item.truncate (ranked ! i) = item.truncate (cd ! identity (ranked ! i)))"
proof -
  obtain scored where sc:
    "score_all (tag_items 0 cd) =
       Inr (stamp_final_ranking 1 (sorted_reverse total_score scored))"
    "list_all2 (\<lambda>it x. \<exists>s. x = with_scores it s (calculate_weighted_total s) \<and>
                missing_data_penalty s = calculate_missing_data_penalty it \<and>
                0 \<le> calculate_weighted_total s \<and> calculate_weighted_total s \<le> 100)
       (tag_items 0 cd) scored"
    using score_all_result [of "tag_items 0 cd"] by blast
  define srt where "srt = sorted_reverse total_score scored"
  define ranked where "ranked = stamp_final_ranking 1 srt"
  note core = ranking_core [OF sc(2), folded srt_def]
  have len: "length ranked = length cd" by (simp add: ranked_def core(1))
  have nth: "ranked ! i = (srt ! i)\<lparr>final_ranking := Some (1 + i)\<rparr>" if "i < length srt" for i
    unfolding ranked_def using that by (rule nth_stamp_final_ranking)
  have ls: "length srt = length ranked" by (simp add: ranked_def)
  have a: "score_all (tag_items 0 cd) = Inr ranked" by (simp add: sc(1) ranked_def srt_def)
  have b: "map final_ranking ranked = map Some [1 ..< Suc (length cd)]"
    by (simp add: ranked_def map_final_ranking_stamp core(1))
  have c: "total_score (ranked ! j) \<le> total_score (ranked ! i)"
    if "i < j" "j < length ranked" for i j
    using core(2) [of i j] that by (simp add: nth ls)
  have d: "identity (ranked ! i) < identity (ranked ! j)"
    if "i < j" "j < length ranked" "total_score (ranked ! i) = total_score (ranked ! j)" for i j
    using core(3) [of i j] that by (simp add: nth ls)
  have e: "identity (ranked ! i) < length cd \<and>
        item.truncate (ranked ! i) = item.truncate (cd ! identity (ranked ! i))"
    if "i < length ranked" for i
    using core(4) [of i] that by (simp add: nth ls)
  show ?thesis using a len b c d e by blast
qed


lemma sample_tie_totals:
  "(case score_all (tag_items 0 sample_tie) of
      Inl e \<Rightarrow> False
    | Inr r \<Rightarrow> total_score (r ! 0) = total_score (r ! 1))"
  by code_simp

lemma supplier_truncate [simp]: "supplier (item.truncate x) = supplier x"
  by (simp add: item.truncate_def)

theorem final_ranking_stable_witness:
  "\<exists>ranked. score_all (tag_items 0 sample_tie) = Inr ranked \<and>
     length ranked = 2 \<and>
     map final_ranking ranked = [Some 1, Some 2] \<and>
     total_score (ranked ! 0) = total_score (ranked ! 1) \<and>
     identity (ranked ! 0) < identity (ranked ! 1) \<and>
     supplier (ranked ! 0) = ''Alpha'' \<and>
     supplier (ranked ! 1) = ''Delta''"
proof -
  obtain ranked where r: "score_all (tag_items 0 sample_tie) = Inr ranked"
    "length ranked = length sample_tie"
    "map final_ranking ranked = map Some [1 ..< Suc (length sample_tie)]"
    and stable: "\<forall>i j. i < j \<and> j < length ranked \<and>
        total_score (ranked ! i) = total_score (ranked ! j) \<longrightarrow>
        identity (ranked ! i) < identity (ranked ! j)"
    and orig: "\<forall>i. i < length ranked \<longrightarrow>
        identity (ranked ! i) < length sample_tie \<and>
        item.truncate (ranked ! i) = item.truncate (sample_tie ! identity (ranked ! i))"
    using final_ranking_stable [of sample_tie] by blast
  have len: "length ranked = 2" using r(2) by (simp add: sample_tie_def)
  have fr: "map final_ranking ranked = [Some 1, Some 2]"
    using r(3) by (simp add: sample_tie_def upt_rec)
  have tie: "total_score (ranked ! 0) = total_score (ranked ! 1)"
    using sample_tie_totals by (simp add: r(1))
  have lt: "identity (ranked ! 0) < identity (ranked ! 1)"
    using stable [rule_format, of 0 1] tie len by simp
  have l0: "0 < length ranked" and l1: "1 < length ranked" using len by simp_all
  note o0 = orig [rule_format, OF l0] and o1 = orig [rule_format, OF l1]
  have ls: "length sample_tie = 2" by (simp add: sample_tie_def)
  have b1: "identity (ranked ! 1) < 2" using o1 ls by simp
  have i0: "identity (ranked ! 0) = 0" and i1: "identity (ranked ! 1) = 1"
    using lt b1 by simp_all
  have "item.truncate (ranked ! 0) = item.truncate (sample_tie ! 0)"
    using o0 by (simp only: i0)
  then have "supplier (item.truncate (ranked ! 0)) = supplier (item.truncate (sample_tie ! 0))"
    by (rule arg_cong)
  then have s0: "supplier (ranked ! 0) = ''Alpha''"
    by (simp add: sample_tie_def sample_item_def)
  have "item.truncate (ranked ! 1) = item.truncate (sample_tie ! 1)"
    using o1 by (simp only: i1)
  then have "supplier (item.truncate (ranked ! 1)) = supplier (item.truncate (sample_tie ! 1))"
    by (rule arg_cong)
  then have s1: "supplier (ranked ! 1) = ''Delta''"
    by (simp add: sample_tie_def)
  show ?thesis by (intro exI [of _ ranked] conjI r(1) len fr tie lt s0 s1)
qed

end
